theory Spec2Isabelle
  imports Complex_Main "HOL-Library.Log_Nat"
begin

section \<open>Python numbers\<close>

text \<open>
  The values that \<^verbatim>\<open>daily-steps.py\<close> reads from the two services are JSON numbers:
  Python \<^verbatim>\<open>int\<close>s and finite \<^verbatim>\<open>float\<close>s (IEEE-754 doubles). Python compares an
  \<^verbatim>\<open>int\<close> and a \<^verbatim>\<open>float\<close> by their mathematical values, so a number is modelled by
  the rational it denotes, and \<^verbatim>\<open>!=\<close> is disequality of rationals. \<^verbatim>\<open>None\<close> is the
  \<open>None\<close> of an option type. NaN and the infinities, which standard JSON cannot
  carry, are outside the model, and so are integers so large that their quotient by
  1000 leaves the range of a double (Python raises OverflowError there).
\<close>

type_synonym number = rat

text \<open>Rounding a rational to the nearest integer, ties to the even neighbour.\<close>

definition round_half_even :: "rat \<Rightarrow> int" where
  "round_half_even x =
     (let f = \<lfloor>x\<rfloor>; r = x - of_int f
      in if r < 1 / 2 then f
         else if 1 / 2 < r then f + 1
         else if even f then f else f + 1)"

text \<open>The binary exponent of a positive rational: the \<open>k\<close> with \<open>2^k \<le> x < 2^(k+1)\<close>.\<close>

definition ilog2 :: "rat \<Rightarrow> int" where
  "ilog2 x =
     (let (p, q) = quotient_of x; k = bitlen p - bitlen q
      in if 2 powi k \<le> x then k else k - 1)"

text \<open>
  The double nearest to a rational (round to nearest, ties to even): 53 significant
  bits, and a spacing of \<open>2^-1074\<close> in the subnormal range.
\<close>

definition round_double :: "rat \<Rightarrow> rat" where
  "round_double x =
     (if x = 0 then 0
      else let e = max (ilog2 \<bar>x\<bar> - 52) (- 1074)
           in of_int (round_half_even (x / 2 powi e)) * 2 powi e)"

text \<open>
  \<^verbatim>\<open>a / b\<close> of Python, for a nonzero \<open>b\<close>: the quotient of two ints, or of a float
  and an int, is the double nearest to the exact quotient.
\<close>

definition py_truediv :: "number \<Rightarrow> number \<Rightarrow> number" where
  "py_truediv a b = round_double (a / b)"

text \<open>
  \<^verbatim>\<open>round(x, n)\<close> of Python on a float, for \<open>n \<ge> 0\<close>: the exact value of \<open>x\<close> is
  rounded to \<open>n\<close> decimals, ties to even, and the decimal is converted back to the
  nearest double.
\<close>

definition py_round :: "number \<Rightarrow> nat \<Rightarrow> number" where
  "py_round x n = round_double (of_int (round_half_even (x * 10 ^ n)) / 10 ^ n)"

section \<open>The data of the two services\<close>

text \<open>
  A daily record of the source service is a dict that the program reads only through
  \<^verbatim>\<open>.get\<close>, which gives \<^verbatim>\<open>None\<close> for an absent key and for a null value alike.
\<close>

record daily_steps =
  calendarDate :: "string option"
  totalSteps :: "number option"
  stepGoal :: "number option"
  totalDistance :: "number option"

text \<open>
  A property value of a destination page: a title, a date with its \<^verbatim>\<open>start\<close>, or a
  number. The properties of a page are a dict from property names to such values.
\<close>

datatype property_value = Title string | DateStart "string option" | Number "number option"

type_synonym props = "string \<rightharpoonup> property_value"

text \<open>
  A page of the destination carries the keys \<^verbatim>\<open>id\<close> and \<^verbatim>\<open>properties\<close> (so, as a
  Python dict, it is never empty and always truthy) and belongs to a database.
\<close>

record page =
  page_id :: nat
  parent :: "string option"
  properties :: props

datatype pyerror = KeyError string | ServiceError string | EOFError

text \<open>\<^verbatim>\<open>existing_props[k]['number']\<close>: both subscripts raise KeyError on a missing key.\<close>

definition number_of :: "props \<Rightarrow> string \<Rightarrow> pyerror + number option" where
  "number_of existing_props k =
     (case existing_props k of
        None \<Rightarrow> Inl (KeyError k)
      | Some (Number n) \<Rightarrow> Inr n
      | Some _ \<Rightarrow> Inl (KeyError ''number''))"

section \<open>The destination client\<close>

text \<open>
  The destination service is a collaborator of the program. It is modelled as a store
  that keeps what it is given: a list of pages, together with the log of the calls the
  program has made to it. Its calls are taken to return; a call that raised would end
  the run at that point, as the KeyError of a lookup does below.
\<close>

datatype call =
    Query "string option" "string option"
  | Create "string option" props
  | Update nat props

record client =
  pages :: "page list"
  calls :: "call list"

text \<open>The filter of \<^verbatim>\<open>daily_steps_exist\<close>: the date equals, and the title is Walking.\<close>

definition matches :: "string option \<Rightarrow> string option \<Rightarrow> page \<Rightarrow> bool" where
  "matches database_id activity_date p \<longleftrightarrow>
     parent p = database_id \<and>
     properties p ''Date'' = Some (DateStart activity_date) \<and>
     properties p ''Activity Type'' = Some (Title ''Walking'')"

definition databases_query ::
  "client \<Rightarrow> string option \<Rightarrow> string option \<Rightarrow> page list \<times> client" where
  "databases_query c database_id activity_date =
     (filter (matches database_id activity_date) (pages c),
      c\<lparr>calls := calls c @ [Query database_id activity_date]\<rparr>)"

definition fresh_id :: "page list \<Rightarrow> nat" where
  "fresh_id ps = Suc (fold max (map page_id ps) 0)"

definition pages_create :: "client \<Rightarrow> string option \<Rightarrow> props \<Rightarrow> client" where
  "pages_create c database_id ps =
     c\<lparr>pages := pages c @ [\<lparr>page_id = fresh_id (pages c), parent = database_id, properties = ps\<rparr>],
       calls := calls c @ [Create database_id ps]\<rparr>"

text \<open>An update overwrites the properties it names and leaves the others as they are.\<close>

definition set_properties :: "nat \<Rightarrow> props \<Rightarrow> page \<Rightarrow> page" where
  "set_properties i ps p =
     (if page_id p = i then p\<lparr>properties := properties p ++ ps\<rparr> else p)"

definition pages_update :: "client \<Rightarrow> nat \<Rightarrow> props \<Rightarrow> client" where
  "pages_update c i ps =
     c\<lparr>pages := map (set_properties i ps) (pages c),
       calls := calls c @ [Update i ps]\<rparr>"

section \<open>The reconciler\<close>

definition daily_steps_exist ::
  "client \<Rightarrow> string option \<Rightarrow> string option \<Rightarrow> page option \<times> client" where
  "daily_steps_exist c database_id activity_date =
     (let (results, c') = databases_query c database_id activity_date
      in (case results of [] \<Rightarrow> None | r # _ \<Rightarrow> Some r, c'))"

text \<open>The distance in kilometres that all three functions compute from a record.\<close>

definition total_distance_km :: "daily_steps \<Rightarrow> number" where
  "total_distance_km steps =
     (let total_distance = (case totalDistance steps of None \<Rightarrow> 0 | Some d \<Rightarrow> d)
      in py_round (py_truediv total_distance 1000) 2)"

text \<open>
  The three comparisons are joined by \<^verbatim>\<open>or\<close>: they are evaluated from left to right,
  and the first that holds decides, before the later properties are looked up.
\<close>

definition steps_need_update :: "page \<Rightarrow> daily_steps \<Rightarrow> pyerror + bool" where
  "steps_need_update existing_steps new_steps =
     (let existing_props = properties existing_steps
      in case number_of existing_props ''Total Steps'' of
           Inl e \<Rightarrow> Inl e
         | Inr ts \<Rightarrow>
             if ts \<noteq> totalSteps new_steps then Inr True
             else case number_of existing_props ''Step Goal'' of
                    Inl e \<Rightarrow> Inl e
                  | Inr sg \<Rightarrow>
                      if sg \<noteq> stepGoal new_steps then Inr True
                      else case number_of existing_props ''Total Distance (km)'' of
                             Inl e \<Rightarrow> Inl e
                           | Inr td \<Rightarrow> Inr (td \<noteq> Some (total_distance_km new_steps)))"

definition update_properties :: "daily_steps \<Rightarrow> props" where
  "update_properties new_steps =
     [''Activity Type'' \<mapsto> Title ''Walking'',
      ''Total Steps'' \<mapsto> Number (totalSteps new_steps),
      ''Step Goal'' \<mapsto> Number (stepGoal new_steps),
      ''Total Distance (km)'' \<mapsto> Number (Some (total_distance_km new_steps))]"

definition update_daily_steps :: "client \<Rightarrow> page \<Rightarrow> daily_steps \<Rightarrow> client" where
  "update_daily_steps c existing_steps new_steps =
     pages_update c (page_id existing_steps) (update_properties new_steps)"

definition create_properties :: "daily_steps \<Rightarrow> props" where
  "create_properties steps =
     [''Activity Type'' \<mapsto> Title ''Walking'',
      ''Date'' \<mapsto> DateStart (calendarDate steps),
      ''Total Steps'' \<mapsto> Number (totalSteps steps),
      ''Step Goal'' \<mapsto> Number (stepGoal steps),
      ''Total Distance (km)'' \<mapsto> Number (Some (total_distance_km steps))]"

definition create_daily_steps :: "client \<Rightarrow> string option \<Rightarrow> daily_steps \<Rightarrow> client" where
  "create_daily_steps c database_id steps =
     pages_create c database_id (create_properties steps)"

text \<open>
  The body of the loop of \<^verbatim>\<open>main\<close>, for one record. An exception ends the run; the
  client is returned as it is at that moment.
\<close>

definition main_step ::
  "client \<Rightarrow> string option \<Rightarrow> daily_steps \<Rightarrow> pyerror option \<times> client" where
  "main_step c database_id steps =
     (let steps_date = calendarDate steps;
          (existing_steps, c1) = daily_steps_exist c database_id steps_date
      in case existing_steps of
           Some existing \<Rightarrow>
             (case steps_need_update existing steps of
                Inl e \<Rightarrow> (Some e, c1)
              | Inr True \<Rightarrow> (None, update_daily_steps c1 existing steps)
              | Inr False \<Rightarrow> (None, c1))
         | None \<Rightarrow> (None, create_daily_steps c1 database_id steps))"

fun main_loop ::
  "client \<Rightarrow> string option \<Rightarrow> daily_steps list \<Rightarrow> pyerror option \<times> client" where
  "main_loop c database_id [] = (None, c)"
| "main_loop c database_id (steps # rest) =
     (case main_step c database_id steps of
        (Some e, c') \<Rightarrow> (Some e, c')
      | (None, c') \<Rightarrow> main_loop c' database_id rest)"

section \<open>The date window and the fetch loop\<close>

text \<open>
  A date is the number of its day (\<^verbatim>\<open>date.toordinal()\<close>), so that adding a
  \<^verbatim>\<open>timedelta(days=x)\<close> is adding \<open>x\<close>. The source client answers a request for the
  days from one date to another with a list of records, or raises. The loop of
  \<^verbatim>\<open>get_all_daily_steps\<close> also returns the requests it has made, in order.
\<close>

type_synonym date = int

fun fetch_loop ::
  "(date \<Rightarrow> date \<Rightarrow> pyerror + daily_steps list) \<Rightarrow> date list \<Rightarrow> daily_steps list \<Rightarrow>
     (date \<times> date) list \<Rightarrow> (pyerror + daily_steps list) \<times> (date \<times> date) list" where
  "fetch_loop get_daily_steps [] daily_steps requests = (Inr daily_steps, requests)"
| "fetch_loop get_daily_steps (d # daterange) daily_steps requests =
     (case get_daily_steps d d of
        Inl e \<Rightarrow> (Inl e, requests @ [(d, d)])
      | Inr found \<Rightarrow>
          fetch_loop get_daily_steps daterange (daily_steps @ found) (requests @ [(d, d)]))"

text \<open>
  \<^verbatim>\<open>date.today()\<close> is read twice, once for \<^verbatim>\<open>startdate\<close> and once for the length of
  the range: \<open>today1\<close> is the first reading of the clock and \<open>today2\<close> the second.
  \<^verbatim>\<open>range(n)\<close> is empty for \<open>n \<le> 0\<close>.
\<close>

definition daterange_of :: "date \<Rightarrow> date \<Rightarrow> date list" where
  "daterange_of today1 today2 =
     (let startdate = today1 - 1
      in map (\<lambda>x. startdate + int x) [0 ..< nat (today2 - startdate)])"

definition get_all_daily_steps ::
  "(date \<Rightarrow> date \<Rightarrow> pyerror + daily_steps list) \<Rightarrow> date \<Rightarrow> date \<Rightarrow>
     (pyerror + daily_steps list) \<times> (date \<times> date) list" where
  "get_all_daily_steps get_daily_steps today1 today2 =
     fetch_loop get_daily_steps (daterange_of today1 today2) [] []"

section \<open>The auth session manager\<close>

text \<open>
  The source client library, the service behind it and the user at the terminal are
  collaborators. Each call the program makes to them either raises an exception (of
  class \<^verbatim>\<open>Exception\<close>) or returns:
  \<^item> \<^verbatim>\<open>g.login(tokenstore)\<close> depends on the contents of the credential store and
    yields the token material of the restored session;
  \<^item> \<^verbatim>\<open>g.login()\<close> yields the pair \<^verbatim>\<open>(result1, result2)\<close> and the token material the
    session holds afterwards (none while a second factor is pending);
  \<^item> \<^verbatim>\<open>g.resume_login(result2, mfa_code)\<close> yields the token material;
  \<^item> \<^verbatim>\<open>g.garth.dump(tokenstore)\<close> may raise;
  \<^item> \<^verbatim>\<open>input(...)\<close> yields the line the user types.
\<close>

datatype pyobj = Str string | Obj nat

record garmin =
  email :: "string option"
  password :: "string option"
  return_on_mfa :: bool
  garth :: "string option"

record collaborators =
  login_tokenstore :: "string option \<Rightarrow> pyerror + string"
  login_credentials :: "string option \<Rightarrow> string option \<Rightarrow> pyerror + (pyobj \<times> pyobj \<times> string option)"
  resume_login :: "pyobj \<Rightarrow> string \<Rightarrow> pyerror + string"
  garth_dump :: "string option \<Rightarrow> pyerror option"
  input_line :: "pyerror + string"

text \<open>
  What the program does to the world: the events it causes, in order, and the contents
  of the credential store at \<^verbatim>\<open>~/.garminconnect\<close>, which only a dump writes.
\<close>

datatype event =
    LoginTokenstore
  | LoginCredentials "string option" "string option"
  | Input string
  | ResumeLogin pyobj string
  | Dump "string option"
  | Print string

record world =
  tokenstore :: "string option"
  events :: "event list"

definition emit :: "event \<Rightarrow> world \<Rightarrow> world" where
  "emit ev w = w\<lparr>events := events w @ [ev]\<rparr>"

definition Garmin :: "string option \<Rightarrow> string option \<Rightarrow> bool \<Rightarrow> garmin" where
  "Garmin em pw mfa = \<lparr>email = em, password = pw, return_on_mfa = mfa, garth = None\<rparr>"

text \<open>Step 3 of the function: \<^verbatim>\<open>g.garth.dump(tokenstore)\<close>, the message, \<^verbatim>\<open>return g\<close>.\<close>

definition dump_tokens :: "collaborators \<Rightarrow> garmin \<Rightarrow> world \<Rightarrow> (pyerror + garmin) \<times> world" where
  "dump_tokens env g w =
     (let w1 = emit (Dump (garth g)) w
      in case garth_dump env (garth g) of
           Some e \<Rightarrow> (Inl e, w1)
         | None \<Rightarrow>
             (Inr g, emit (Print ''Nieuwe Garmin tokens opgeslagen.'') (w1\<lparr>tokenstore := garth g\<rparr>)))"

definition login_garmin_with_mfa ::
  "collaborators \<Rightarrow> string option \<Rightarrow> string option \<Rightarrow> world \<Rightarrow> (pyerror + garmin) \<times> world" where
  "login_garmin_with_mfa env em pw w =
     (let w1 = emit LoginTokenstore w
      in case login_tokenstore env (tokenstore w) of
           Inr t \<Rightarrow>
             (Inr ((Garmin None None False)\<lparr>garth := Some t\<rparr>),
              emit (Print ''Garmin login via tokens gelukt.'') w1)
         | Inl _ \<Rightarrow>
             let w2 = emit (Print ''Geen geldige tokens. Nieuwe Garmin login (met MFA) ...'') w1;
                 g = Garmin em pw True;
                 w3 = emit (LoginCredentials em pw) w2
             in case login_credentials env em pw of
                  Inl e \<Rightarrow> (Inl e, w3)
                | Inr (result1, result2, t) \<Rightarrow>
                    let g1 = g\<lparr>garth := t\<rparr>
                    in if result1 = Str ''needs_mfa'' then
                         let w4 = emit (Input ''Voer Garmin MFA code uit je mail in: '') w3
                         in case input_line env of
                              Inl e \<Rightarrow> (Inl e, w4)
                            | Inr mfa_code \<Rightarrow>
                                let w5 = emit (ResumeLogin result2 mfa_code) w4
                                in case resume_login env result2 mfa_code of
                                     Inl e \<Rightarrow> (Inl e, w5)
                                   | Inr t' \<Rightarrow> dump_tokens env (g1\<lparr>garth := Some t'\<rparr>) w5
                       else dump_tokens env g1 w3)"

section \<open>Properties of the rows\<close>

text \<open>
  The invariant of the destination: page identifiers are distinct, and no database
  holds two Walking rows of the same date.
\<close>

definition unique_rows :: "page list \<Rightarrow> bool" where
  "unique_rows ps \<longleftrightarrow>
     distinct (map page_id ps) \<and>
     (\<forall>database_id activity_date. length (filter (matches database_id activity_date) ps) \<le> 1)"

section \<open>Example data\<close>

definition example_steps :: daily_steps where
  "example_steps =
     \<lparr>calendarDate = Some ''2024-05-01'', totalSteps = Some 8000, stepGoal = Some 10000,
      totalDistance = Some 6000\<rparr>"

definition example_page :: "number option \<Rightarrow> page" where
  "example_page ts =
     \<lparr>page_id = 7, parent = Some ''db'',
      properties =
        [''Activity Type'' \<mapsto> Title ''Walking'',
         ''Date'' \<mapsto> DateStart (Some ''2024-05-01''),
         ''Total Steps'' \<mapsto> Number ts,
         ''Step Goal'' \<mapsto> Number (Some 10000),
         ''Total Distance (km)'' \<mapsto> Number (Some 6)]\<rparr>"

definition example_duplicate :: page where
  "example_duplicate = (example_page (Some 1))\<lparr>page_id := 8\<rparr>"

definition example_client :: "page list \<Rightarrow> client" where
  "example_client ps = \<lparr>pages = ps, calls = []\<rparr>"

definition no_records :: "date \<Rightarrow> date \<Rightarrow> pyerror + daily_steps list" where
  "no_records d1 d2 = Inr []"

definition example_env ::
  "pyerror + string \<Rightarrow> pyerror + (pyobj \<times> pyobj \<times> string option) \<Rightarrow> pyerror + string \<Rightarrow>
     pyerror option \<Rightarrow> collaborators" where
  "example_env tok cred res dmp =
     \<lparr>login_tokenstore = (\<lambda>_. tok), login_credentials = (\<lambda>_ _. cred),
      resume_login = (\<lambda>_ _. res), garth_dump = (\<lambda>_. dmp), input_line = Inr ''123456''\<rparr>"

definition example_world :: world where
  "example_world = \<lparr>tokenstore = Some ''old'', events = []\<rparr>"

section \<open>The reconciler: one record\<close>


lemma km_zero: "py_round (py_truediv 0 1000) 2 = 0"
  by (simp add: py_round_def py_truediv_def round_double_def round_half_even_def)

lemma km_6000: "py_round (py_truediv 6000 1000) 2 = 6"
  by code_simp

text \<open>
  The rounding is that of the doubles, not of the decimals: 2.675 is the double just
  below the tie and is rounded down to the double nearest to 2.67.
\<close>

lemma km_2675: "py_round (py_truediv 2675 1000) 2 = 1503076375634903 / 562949953421312"
  by code_simp

lemma km_1234567: "py_round (py_truediv 1234567 1000) 2 = 5429696281213665 / 4398046511104"
  by code_simp

lemma databases_query_calls:
  "calls (snd (databases_query c db d)) = calls c @ [Query db d]"
  "pages (snd (databases_query c db d)) = pages c"
  "fst (databases_query c db d) = filter (matches db d) (pages c)"
  by (simp_all add: databases_query_def)

lemma daily_steps_exist_simps:
  "fst (daily_steps_exist c db d) =
     (case filter (matches db d) (pages c) of [] \<Rightarrow> None | r # _ \<Rightarrow> Some r)"
  "snd (daily_steps_exist c db d) = c\<lparr>calls := calls c @ [Query db d]\<rparr>"
  by (simp_all add: daily_steps_exist_def databases_query_def)

lemma main_step_no_match:
  assumes "filter (matches db (calendarDate s)) (pages c) = []"
  shows "main_step c db s =
    (None, create_daily_steps (c\<lparr>calls := calls c @ [Query db (calendarDate s)]\<rparr>) db s)"
  using assms by (simp add: main_step_def daily_steps_exist_def databases_query_def)

lemma main_step_match:
  assumes "filter (matches db (calendarDate s)) (pages c) = r # rest"
  shows "main_step c db s =
    (case steps_need_update r s of
       Inl e \<Rightarrow> (Some e, c\<lparr>calls := calls c @ [Query db (calendarDate s)]\<rparr>)
     | Inr True \<Rightarrow> (None, update_daily_steps (c\<lparr>calls := calls c @ [Query db (calendarDate s)]\<rparr>) r s)
     | Inr False \<Rightarrow> (None, c\<lparr>calls := calls c @ [Query db (calendarDate s)]\<rparr>))"
  using assms by (simp add: main_step_def daily_steps_exist_def databases_query_def Let_def)

lemma steps_need_update_numbers:
  assumes "properties r ''Total Steps'' = Some (Number a)"
    and "properties r ''Step Goal'' = Some (Number b)"
    and "properties r ''Total Distance (km)'' = Some (Number d)"
  shows "steps_need_update r s =
    Inr (a \<noteq> totalSteps s \<or> b \<noteq> stepGoal s \<or> d \<noteq> Some (total_distance_km s))"
  using assms by (auto simp add: steps_need_update_def number_of_def Let_def)

text \<open>
  Claim C1. When the query of the destination for the record's date returns no row, the
  step for that record raises nothing and makes, after the query, exactly one call: a
  create in the given database with Activity Type = Walking, Date = the record's
  calendarDate, Total Steps and Step Goal = the record's raw values, and
  Total Distance (km) = round((totalDistance, or 0 when absent) / 1000, 2). No update
  is issued.
\<close>

theorem create_when_no_match:
  assumes "fst (databases_query c database_id (calendarDate steps)) = []"
  shows "fst (main_step c database_id steps) = None \<and>
    calls (snd (main_step c database_id steps)) =
      calls c @
        [Query database_id (calendarDate steps),
         Create database_id
           [''Activity Type'' \<mapsto> Title ''Walking'',
            ''Date'' \<mapsto> DateStart (calendarDate steps),
            ''Total Steps'' \<mapsto> Number (totalSteps steps),
            ''Step Goal'' \<mapsto> Number (stepGoal steps),
            ''Total Distance (km)'' \<mapsto>
              Number (Some (py_round
                (py_truediv (case totalDistance steps of None \<Rightarrow> 0 | Some d \<Rightarrow> d) 1000) 2))]]"
proof -
  from assms have "filter (matches database_id (calendarDate steps)) (pages c) = []"
    by (simp add: databases_query_def)
  then have "main_step c database_id steps =
    (None, create_daily_steps
       (c\<lparr>calls := calls c @ [Query database_id (calendarDate steps)]\<rparr>) database_id steps)"
    by (rule main_step_no_match)
  then show ?thesis
    by (simp add: create_daily_steps_def pages_create_def create_properties_def
        total_distance_km_def)
qed

text \<open>
  Claim C2. When the query returns a row (the first one is taken) that carries the
  three tracked numbers, the step raises nothing and makes, after the query, exactly
  one update of that row, rewriting the four properties Activity Type, Total Steps,
  Step Goal and Total Distance (km), if and only if one of the three numbers differs
  from the record's; if none differs it makes no further call.
\<close>

theorem update_iff_differs:
  assumes "fst (databases_query c database_id (calendarDate steps)) = existing # others"
    and "properties existing ''Total Steps'' = Some (Number a)"
    and "properties existing ''Step Goal'' = Some (Number b)"
    and "properties existing ''Total Distance (km)'' = Some (Number d)"
  shows "fst (main_step c database_id steps) = None \<and>
    calls (snd (main_step c database_id steps)) =
      calls c @ Query database_id (calendarDate steps) #
        (if a \<noteq> totalSteps steps \<or> b \<noteq> stepGoal steps \<or>
            d \<noteq> Some (py_round
              (py_truediv (case totalDistance steps of None \<Rightarrow> 0 | Some x \<Rightarrow> x) 1000) 2)
         then [Update (page_id existing)
                 [''Activity Type'' \<mapsto> Title ''Walking'',
                  ''Total Steps'' \<mapsto> Number (totalSteps steps),
                  ''Step Goal'' \<mapsto> Number (stepGoal steps),
                  ''Total Distance (km)'' \<mapsto>
                    Number (Some (py_round
                      (py_truediv (case totalDistance steps of None \<Rightarrow> 0 | Some x \<Rightarrow> x)
                         1000) 2))]]
         else [])"
proof -
  from assms(1)
  have m: "filter (matches database_id (calendarDate steps)) (pages c) = existing # others"
    by (simp add: databases_query_def)
  have n: "steps_need_update existing steps =
      Inr (a \<noteq> totalSteps steps \<or> b \<noteq> stepGoal steps \<or> d \<noteq> Some (total_distance_km steps))"
    using assms(2-4) by (rule steps_need_update_numbers)
  show ?thesis
    unfolding main_step_match [OF m] n
    by (simp add: update_daily_steps_def pages_update_def update_properties_def
        total_distance_km_def)
qed

theorem create_when_no_match_witness:
  "fst (databases_query (example_client []) (Some ''db'') (calendarDate example_steps)) = [] \<and>
   fst (main_step (example_client []) (Some ''db'') example_steps) = None \<and>
   calls (snd (main_step (example_client []) (Some ''db'') example_steps)) =
     [Query (Some ''db'') (Some ''2024-05-01''),
      Create (Some ''db'')
        [''Activity Type'' \<mapsto> Title ''Walking'',
         ''Date'' \<mapsto> DateStart (Some ''2024-05-01''),
         ''Total Steps'' \<mapsto> Number (Some 8000),
         ''Step Goal'' \<mapsto> Number (Some 10000),
         ''Total Distance (km)'' \<mapsto> Number (Some 6)]]"
proof -
  have q: "fst (databases_query (example_client []) (Some ''db'') (calendarDate example_steps)) = []"
    by (simp add: databases_query_def example_client_def)
  show ?thesis
    using q create_when_no_match [OF q]
    by (simp add: example_client_def example_steps_def km_6000)
qed

theorem update_iff_differs_witness:
  "properties (example_page (Some 7000)) ''Total Steps'' = Some (Number (Some 7000)) \<and>
   properties (example_page (Some 7000)) ''Step Goal'' = Some (Number (Some 10000)) \<and>
   properties (example_page (Some 7000)) ''Total Distance (km)'' = Some (Number (Some 6)) \<and>
   fst (databases_query (example_client [example_page (Some 7000)]) (Some ''db'')
      (calendarDate example_steps)) = [example_page (Some 7000)] \<and>
   calls (snd (main_step (example_client [example_page (Some 7000)]) (Some ''db'') example_steps)) =
     [Query (Some ''db'') (Some ''2024-05-01''),
      Update 7
        [''Activity Type'' \<mapsto> Title ''Walking'',
         ''Total Steps'' \<mapsto> Number (Some 8000),
         ''Step Goal'' \<mapsto> Number (Some 10000),
         ''Total Distance (km)'' \<mapsto> Number (Some 6)]]"
proof -
  have q: "fst (databases_query (example_client [example_page (Some 7000)]) (Some ''db'')
      (calendarDate example_steps)) = [example_page (Some 7000)]"
    by (simp add: databases_query_def example_client_def example_page_def example_steps_def
        matches_def)
  have a: "properties (example_page (Some 7000)) ''Total Steps'' = Some (Number (Some 7000))"
    and b: "properties (example_page (Some 7000)) ''Step Goal'' = Some (Number (Some 10000))"
    and d: "properties (example_page (Some 7000)) ''Total Distance (km)'' = Some (Number (Some 6))"
    by (simp_all add: example_page_def)
  show ?thesis
    using q a b d update_iff_differs [OF q a b d]
    by (simp add: example_client_def example_steps_def km_6000 example_page_def)
qed

section \<open>Idempotence\<close>


lemma number_of_update_properties:
  "number_of (ps ++ update_properties s) ''Total Steps'' = Inr (totalSteps s)"
  "number_of (ps ++ update_properties s) ''Step Goal'' = Inr (stepGoal s)"
  "number_of (ps ++ update_properties s) ''Total Distance (km)'' = Inr (Some (total_distance_km s))"
  by (simp_all add: number_of_def update_properties_def map_add_def)

lemma number_of_create_properties:
  "number_of (create_properties s) ''Total Steps'' = Inr (totalSteps s)"
  "number_of (create_properties s) ''Step Goal'' = Inr (stepGoal s)"
  "number_of (create_properties s) ''Total Distance (km)'' = Inr (Some (total_distance_km s))"
  by (simp_all add: number_of_def create_properties_def)

lemma steps_need_update_written:
  "properties p = ps ++ update_properties s \<Longrightarrow> steps_need_update p s = Inr False"
  "properties p = create_properties s \<Longrightarrow> steps_need_update p s = Inr False"
  by (simp_all add: steps_need_update_def number_of_update_properties
      number_of_create_properties)

lemma matches_created:
  "matches db d \<lparr>page_id = i, parent = db', properties = create_properties s\<rparr> \<longleftrightarrow>
     db' = db \<and> d = calendarDate s"
  by (auto simp add: matches_def create_properties_def)

lemma matches_set_properties:
  "matches db d p \<Longrightarrow> matches db d (set_properties i (update_properties s) p)"
  by (simp add: matches_def set_properties_def update_properties_def map_add_def)

text \<open>After an update of the first match, the first match is an updated page.\<close>

lemma first_match_after_update:
  assumes "filter (matches db d) ps = r # rest"
  shows "\<exists>q rest'. filter (matches db d) (map (set_properties (page_id r) (update_properties s)) ps)
            = q # rest' \<and> (\<exists>old. properties q = old ++ update_properties s)"
  using assms
proof (induction ps)
  case Nil
  then show ?case by simp
next
  case (Cons x xs)
  show ?case
  proof (cases "matches db d x")
    case True
    with Cons.prems have "x = r" by simp
    with True have "matches db d (set_properties (page_id r) (update_properties s) x)"
      by (simp add: matches_set_properties)
    moreover have "properties (set_properties (page_id r) (update_properties s) x)
        = properties x ++ update_properties s"
      using \<open>x = r\<close> by (simp add: set_properties_def)
    ultimately show ?thesis by auto
  next
    case False
    with Cons.prems have xs: "filter (matches db d) xs = r # rest" by simp
    show ?thesis
    proof (cases "matches db d (set_properties (page_id r) (update_properties s) x)")
      case True
      then have "set_properties (page_id r) (update_properties s) x \<noteq> x"
        using False by auto
      then have "properties (set_properties (page_id r) (update_properties s) x)
          = properties x ++ update_properties s"
        by (auto simp add: set_properties_def split: if_splits)
      with True show ?thesis by auto
    next
      case False
      with Cons.IH [OF xs] show ?thesis by simp
    qed
  qed
qed

text \<open>
  Claim C3. Reconciliation of a record is idempotent. Whatever the first step for a
  record did (a create, an update, nothing, or an exception before any write), a second
  step for the same record on the client as the first step left it ends as the first
  did and changes the client only by logging its query: it issues no create and no
  update, and the pages stay as they are.
\<close>

theorem reconcile_idempotent:
  "main_step (snd (main_step c database_id steps)) database_id steps =
     (fst (main_step c database_id steps),
      (snd (main_step c database_id steps))
        \<lparr>calls := calls (snd (main_step c database_id steps)) @
           [Query database_id (calendarDate steps)]\<rparr>)"
proof (cases "filter (matches database_id (calendarDate steps)) (pages c)")
  case Nil
  let ?c1 = "create_daily_steps
      (c\<lparr>calls := calls c @ [Query database_id (calendarDate steps)]\<rparr>) database_id steps"
  let ?new = "\<lparr>page_id = fresh_id (pages c), parent = database_id,
      properties = create_properties steps\<rparr>"
  have first: "main_step c database_id steps = (None, ?c1)"
    using Nil by (rule main_step_no_match)
  have "filter (matches database_id (calendarDate steps)) (pages ?c1) = ?new # []"
    using Nil by (simp add: create_daily_steps_def pages_create_def matches_created)
  from main_step_match [OF this]
  have "main_step ?c1 database_id steps =
      (None, ?c1\<lparr>calls := calls ?c1 @ [Query database_id (calendarDate steps)]\<rparr>)"
    by (simp add: steps_need_update_written(2))
  with first show ?thesis by simp
next
  case (Cons r rest)
  let ?q = "Query database_id (calendarDate steps)"
  note step = main_step_match [OF Cons]
  show ?thesis
  proof (cases "steps_need_update r steps")
    case (Inl e)
    with step have first: "main_step c database_id steps = (Some e, c\<lparr>calls := calls c @ [?q]\<rparr>)"
      by simp
    have "filter (matches database_id (calendarDate steps))
        (pages (c\<lparr>calls := calls c @ [?q]\<rparr>)) = r # rest"
      using Cons by simp
    from main_step_match [OF this] Inl first show ?thesis by simp
  next
    case (Inr b)
    show ?thesis
    proof (cases b)
      case False
      with Inr step
      have first: "main_step c database_id steps = (None, c\<lparr>calls := calls c @ [?q]\<rparr>)"
        by simp
      have "filter (matches database_id (calendarDate steps))
          (pages (c\<lparr>calls := calls c @ [?q]\<rparr>)) = r # rest"
        using Cons by simp
      from main_step_match [OF this] Inr False first show ?thesis by simp
    next
      case True
      let ?c1 = "update_daily_steps (c\<lparr>calls := calls c @ [?q]\<rparr>) r steps"
      from True Inr step have first: "main_step c database_id steps = (None, ?c1)"
        by simp
      have p1: "pages ?c1 = map (set_properties (page_id r) (update_properties steps)) (pages c)"
        by (simp add: update_daily_steps_def pages_update_def)
      from first_match_after_update [OF Cons, of steps] p1
      obtain q rest' old where
        m: "filter (matches database_id (calendarDate steps)) (pages ?c1) = q # rest'"
        and w: "properties q = old ++ update_properties steps"
        by auto
      from w have "steps_need_update q steps = Inr False"
        by (rule steps_need_update_written(1))
      with main_step_match [OF m] first show ?thesis by simp
    qed
  qed
qed

section \<open>The invariant of the rows\<close>


lemma fold_max_ge_init: "(a::nat) \<le> fold max xs a"
  by (induction xs arbitrary: a) (auto intro: order_trans [OF max.cobounded2])

lemma fold_max_ge: "x \<in> set xs \<Longrightarrow> (x::nat) \<le> fold max xs a"
proof (induction xs arbitrary: a)
  case Nil
  then show ?case by simp
next
  case (Cons y ys)
  show ?case
  proof (cases "x = y")
    case True
    have "max y a \<le> fold max ys (max y a)" by (rule fold_max_ge_init)
    with True show ?thesis by simp
  next
    case False
    with Cons.prems have "x \<in> set ys" by simp
    then show ?thesis by (simp add: Cons.IH)
  qed
qed

lemma fresh_id_new: "fresh_id ps \<notin> page_id ` set ps"
proof
  assume "fresh_id ps \<in> page_id ` set ps"
  then have "fresh_id ps \<in> set (map page_id ps)" by simp
  then have "fresh_id ps \<le> fold max (map page_id ps) 0" by (rule fold_max_ge)
  then show False by (simp add: fresh_id_def)
qed

lemma page_id_set_properties [simp]:
  "page_id (set_properties i ps p) = page_id p"
  "parent (set_properties i ps p) = parent p"
  by (simp_all add: set_properties_def)

lemma matches_update_same:
  assumes "matches db d r"
  shows "matches db' d' (set_properties i (update_properties s) r) = matches db' d' r"
  using assms by (auto simp add: matches_def set_properties_def update_properties_def map_add_def)

lemma unique_rows_create:
  assumes "unique_rows ps" and "filter (matches db (calendarDate s)) ps = []"
  shows "unique_rows (ps @ [\<lparr>page_id = fresh_id ps, parent = db, properties = create_properties s\<rparr>])"
proof -
  let ?new = "\<lparr>page_id = fresh_id ps, parent = db, properties = create_properties s\<rparr>"
  have "distinct (map page_id (ps @ [?new]))"
    using assms(1) fresh_id_new [of ps] by (simp add: unique_rows_def)
  moreover have "length (filter (matches db' d') (ps @ [?new])) \<le> 1" for db' d'
  proof (cases "db = db' \<and> d' = calendarDate s")
    case True
    with assms(2) show ?thesis by (simp add: matches_created)
  next
    case False
    then have "\<not> matches db' d' ?new" by (simp add: matches_created)
    with assms(1) show ?thesis by (simp add: unique_rows_def)
  qed
  ultimately show ?thesis by (simp add: unique_rows_def)
qed

lemma unique_rows_update:
  assumes "unique_rows ps" and "filter (matches db d) ps = r # rest"
  shows "unique_rows (map (set_properties (page_id r) (update_properties s)) ps)"
proof -
  let ?f = "set_properties (page_id r) (update_properties s)"
  from assms(2) have "r \<in> set (filter (matches db d) ps)" by simp
  then have r: "r \<in> set ps" "matches db d r" by simp_all
  from assms(1) have inj: "inj_on page_id (set ps)"
    by (simp add: unique_rows_def distinct_map)
  have same: "matches db' d' (?f q) = matches db' d' q" if "q \<in> set ps" for q db' d'
  proof (cases "page_id q = page_id r")
    case True
    with inj that r(1) have "q = r" by (auto dest: inj_onD)
    with r(2) show ?thesis by (simp add: matches_update_same)
  next
    case False
    then show ?thesis by (simp add: set_properties_def)
  qed
  have "filter (matches db' d') (map ?f ps) = map ?f (filter (matches db' d') ps)" for db' d'
    using same by (simp add: filter_map comp_def cong: filter_cong)
  moreover have "length (filter (matches db' d') ps) \<le> 1" for db' d'
    using assms(1) by (simp add: unique_rows_def)
  ultimately have len: "length (filter (matches db' d') (map ?f ps)) \<le> 1" for db' d'
    by (simp del: filter_map)
  have "map page_id (map ?f ps) = map page_id ps"
    by (simp add: comp_def)
  with assms(1) have "distinct (map page_id (map ?f ps))"
    by (simp only: unique_rows_def)
  with len show ?thesis
    unfolding unique_rows_def by blast
qed

lemma main_step_unique_rows:
  assumes "unique_rows (pages c)"
  shows "unique_rows (pages (snd (main_step c database_id steps)))"
proof (cases "filter (matches database_id (calendarDate steps)) (pages c)")
  case Nil
  from unique_rows_create [OF assms Nil] main_step_no_match [OF Nil]
  show ?thesis by (simp add: create_daily_steps_def pages_create_def)
next
  case (Cons r rest)
  from unique_rows_update [OF assms Cons, of steps] main_step_match [OF Cons] assms
  show ?thesis
    by (simp add: update_daily_steps_def pages_update_def split: sum.split bool.split)
qed

lemma main_loop_unique_rows:
  "unique_rows (pages c) \<Longrightarrow> unique_rows (pages (snd (main_loop c database_id records)))"
proof (induction records arbitrary: c)
  case Nil
  then show ?case by simp
next
  case (Cons s rest)
  obtain e c' where step: "main_step c database_id s = (e, c')" by (cases "main_step c database_id s")
  from main_step_unique_rows [OF Cons.prems, of database_id s] step
  have u: "unique_rows (pages c')" by simp
  show ?case
  proof (cases e)
    case None
    with step Cons.IH [OF u] show ?thesis by simp
  next
    case (Some x)
    with step u show ?thesis by simp
  qed
qed

section \<open>Query before write, nulls, and the frame of an update\<close>


text \<open>
  Claim C9. The step for a record first queries the destination and only then writes:
  a create exactly when the query returned no row; when it returned one or more rows,
  what is done depends on the first row alone and is an update of that row or nothing,
  never a create. On a destination that holds at most one Walking row per date and
  database (and whose page identifiers are distinct), the same holds again after the
  step, and after the whole loop over any list of records.
\<close>

theorem query_before_write:
  "calls (snd (main_step c database_id steps)) =
      calls c @ Query database_id (calendarDate steps) #
        (case fst (databases_query c database_id (calendarDate steps)) of
           [] \<Rightarrow> [Create database_id (create_properties steps)]
         | first # others \<Rightarrow>
             if steps_need_update first steps = Inr True
             then [Update (page_id first) (update_properties steps)] else [])
    \<and> (unique_rows (pages c) \<longrightarrow>
         unique_rows (pages (snd (main_step c database_id steps))) \<and>
         unique_rows (pages (snd (main_loop c database_id records))))"
proof -
  have "calls (snd (main_step c database_id steps)) =
      calls c @ Query database_id (calendarDate steps) #
        (case fst (databases_query c database_id (calendarDate steps)) of
           [] \<Rightarrow> [Create database_id (create_properties steps)]
         | first # others \<Rightarrow>
             if steps_need_update first steps = Inr True
             then [Update (page_id first) (update_properties steps)] else [])"
  proof (cases "filter (matches database_id (calendarDate steps)) (pages c)")
    case Nil
    from main_step_no_match [OF Nil] Nil show ?thesis
      by (simp add: databases_query_def create_daily_steps_def pages_create_def)
  next
    case (Cons r rest)
    from main_step_match [OF Cons] Cons show ?thesis
      by (simp add: databases_query_def update_daily_steps_def pages_update_def
          split: sum.split bool.split)
  qed
  moreover have "unique_rows (pages (snd (main_step c database_id steps)))"
    and "unique_rows (pages (snd (main_loop c database_id records)))"
    if "unique_rows (pages c)"
    using that by (rule main_step_unique_rows, rule main_loop_unique_rows)
  ultimately show ?thesis by blast
qed

theorem query_before_write_witness:
  "unique_rows (pages (example_client [example_page (Some 7000)])) \<and>
   calls (snd (main_step (example_client [example_page (Some 7000)]) (Some ''db'') example_steps)) =
     [Query (Some ''db'') (Some ''2024-05-01''),
      Update 7 (update_properties example_steps)] \<and>
   unique_rows (pages (snd (main_step (example_client [example_page (Some 7000)]) (Some ''db'')
     example_steps))) \<and>
   unique_rows (pages (snd (main_loop (example_client [example_page (Some 7000)]) (Some ''db'')
     [example_steps, example_steps])))"
proof -
  have u: "unique_rows (pages (example_client [example_page (Some 7000)]))"
    by (simp add: unique_rows_def example_client_def)
  have n: "steps_need_update (example_page (Some 7000)) example_steps = Inr True"
    by (simp add: steps_need_update_def number_of_def example_page_def example_steps_def)
  have q: "fst (databases_query (example_client [example_page (Some 7000)]) (Some ''db'')
      (Some ''2024-05-01'')) = [example_page (Some 7000)]"
    by (simp add: databases_query_def example_client_def example_page_def matches_def)
  have d: "calendarDate example_steps = Some ''2024-05-01''"
    by (simp add: example_steps_def)
  have e: "calls (example_client [example_page (Some 7000)]) = []"
    by (simp add: example_client_def)
  have i: "page_id (example_page (Some 7000)) = 7"
    by (simp add: example_page_def)
  from query_before_write [of "example_client [example_page (Some 7000)]" "Some ''db''"
      example_steps "[example_steps, example_steps]"]
  show ?thesis
    unfolding d q by (simp add: n e u i)
qed

text \<open>
  Two rows of the same date, which the invariant excludes: only the first is looked at
  and updated, the second stays stale, and no row is created.
\<close>

lemma first_of_two_matches:
  "calls (snd (main_step (example_client [example_page (Some 7000), example_duplicate])
      (Some ''db'') example_steps)) =
     [Query (Some ''db'') (Some ''2024-05-01''), Update 7 (update_properties example_steps)] \<and>
   map page_id (pages (snd (main_step (example_client [example_page (Some 7000), example_duplicate])
      (Some ''db'') example_steps))) = [7, 8] \<and>
   properties (pages (snd (main_step (example_client [example_page (Some 7000), example_duplicate])
      (Some ''db'') example_steps)) ! 1) ''Total Steps'' = Some (Number (Some 1))"
proof -
  have m: "filter (matches (Some ''db'') (calendarDate example_steps))
      (pages (example_client [example_page (Some 7000), example_duplicate])) =
      example_page (Some 7000) # [example_duplicate]"
    by (simp add: example_client_def example_page_def example_duplicate_def example_steps_def
        matches_def)
  have n: "steps_need_update (example_page (Some 7000)) example_steps = Inr True"
    by (simp add: steps_need_update_def number_of_def example_page_def example_steps_def)
  show ?thesis
    unfolding main_step_match [OF m] n
    by (simp add: update_daily_steps_def pages_update_def set_properties_def
        example_client_def example_page_def example_duplicate_def example_steps_def)
qed

text \<open>
  Claim C4. The staleness comparison takes Total Steps and Step Goal of the record as
  they are: a stored 0 against a missing value of the record is a difference, nothing
  is coerced to zero. A missing totalDistance is replaced by 0 before
  round(distance / 1000, 2), in the comparison as in the properties of an update and of
  a create, so that the record behaves as one with totalDistance = 0 and its stored
  Total Distance (km) is 0.
\<close>

theorem null_handling:
  "(properties existing ''Total Steps'' = Some (Number a) \<longrightarrow>
    properties existing ''Step Goal'' = Some (Number b) \<longrightarrow>
    properties existing ''Total Distance (km)'' = Some (Number d) \<longrightarrow>
      steps_need_update existing steps =
        Inr (a \<noteq> totalSteps steps \<or> b \<noteq> stepGoal steps \<or>
             d \<noteq> Some (py_round
               (py_truediv (case totalDistance steps of None \<Rightarrow> 0 | Some x \<Rightarrow> x) 1000) 2)))
   \<and> (properties existing ''Total Steps'' = Some (Number (Some 0)) \<longrightarrow> totalSteps steps = None \<longrightarrow>
        steps_need_update existing steps = Inr True)
   \<and> (properties existing ''Total Steps'' = Some (Number (totalSteps steps)) \<longrightarrow>
      properties existing ''Step Goal'' = Some (Number (Some 0)) \<longrightarrow> stepGoal steps = None \<longrightarrow>
        steps_need_update existing steps = Inr True)
   \<and> (totalDistance steps = None \<longrightarrow>
        steps_need_update existing steps =
          steps_need_update existing (steps\<lparr>totalDistance := Some 0\<rparr>) \<and>
        update_properties steps = update_properties (steps\<lparr>totalDistance := Some 0\<rparr>) \<and>
        create_properties steps = create_properties (steps\<lparr>totalDistance := Some 0\<rparr>) \<and>
        update_properties steps ''Total Distance (km)'' = Some (Number (Some 0)) \<and>
        create_properties steps ''Total Distance (km)'' = Some (Number (Some 0)))"
proof -
  have z: "total_distance_km steps = 0"
    and z': "total_distance_km (steps\<lparr>totalDistance := Some 0\<rparr>) = 0"
    if "totalDistance steps = None"
    using that by (simp_all add: total_distance_km_def km_zero)
  have "steps_need_update existing steps =
        Inr (a \<noteq> totalSteps steps \<or> b \<noteq> stepGoal steps \<or>
             d \<noteq> Some (py_round
               (py_truediv (case totalDistance steps of None \<Rightarrow> 0 | Some x \<Rightarrow> x) 1000) 2))"
    if "properties existing ''Total Steps'' = Some (Number a)"
      "properties existing ''Step Goal'' = Some (Number b)"
      "properties existing ''Total Distance (km)'' = Some (Number d)"
    using steps_need_update_numbers [OF that, of steps] by (simp add: total_distance_km_def)
  moreover have "steps_need_update existing steps = Inr True"
    if "properties existing ''Total Steps'' = Some (Number (Some 0))" "totalSteps steps = None"
    using that by (simp add: steps_need_update_def number_of_def)
  moreover have "steps_need_update existing steps = Inr True"
    if "properties existing ''Total Steps'' = Some (Number (totalSteps steps))"
      "properties existing ''Step Goal'' = Some (Number (Some 0))" "stepGoal steps = None"
    using that by (simp add: steps_need_update_def number_of_def)
  moreover have "steps_need_update existing steps =
          steps_need_update existing (steps\<lparr>totalDistance := Some 0\<rparr>)"
    if "totalDistance steps = None"
    using z [OF that] z' [OF that] by (simp add: steps_need_update_def Let_def split: sum.split)
  moreover have "update_properties steps = update_properties (steps\<lparr>totalDistance := Some 0\<rparr>)"
    "create_properties steps = create_properties (steps\<lparr>totalDistance := Some 0\<rparr>)"
    "update_properties steps ''Total Distance (km)'' = Some (Number (Some 0))"
    "create_properties steps ''Total Distance (km)'' = Some (Number (Some 0))"
    if "totalDistance steps = None"
    using z [OF that] z' [OF that] by (simp_all add: update_properties_def create_properties_def)
  ultimately show ?thesis by blast
qed

theorem null_handling_witness:
  "properties (example_page (Some 0)) ''Total Steps'' = Some (Number (Some 0)) \<and>
   totalSteps (example_steps\<lparr>totalSteps := None, totalDistance := None\<rparr>) = None \<and>
   totalDistance (example_steps\<lparr>totalSteps := None, totalDistance := None\<rparr>) = None \<and>
   steps_need_update (example_page (Some 0))
     (example_steps\<lparr>totalSteps := None, totalDistance := None\<rparr>) = Inr True \<and>
   create_properties (example_steps\<lparr>totalSteps := None, totalDistance := None\<rparr>)
     ''Total Distance (km)'' = Some (Number (Some 0))"
proof -
  have a: "properties (example_page (Some 0)) ''Total Steps'' = Some (Number (Some 0))"
    by (simp add: example_page_def)
  have b: "totalSteps (example_steps\<lparr>totalSteps := None, totalDistance := None\<rparr>) = None"
    and c: "totalDistance (example_steps\<lparr>totalSteps := None, totalDistance := None\<rparr>) = None"
    by simp_all
  from a b c
    null_handling [of "example_page (Some 0)" "Some 0" "Some 10000" "Some 6"
      "example_steps\<lparr>totalSteps := None, totalDistance := None\<rparr>"]
  show ?thesis by blast
qed

lemma dom_update_properties:
  "dom (update_properties s) =
     {''Activity Type'', ''Total Steps'', ''Step Goal'', ''Total Distance (km)''}"
  by (auto simp add: update_properties_def)

lemma properties_set_properties_other:
  "k \<notin> dom ps \<Longrightarrow> properties (set_properties i ps p) k = properties p k"
  by (auto simp add: set_properties_def map_add_def split: option.split)

text \<open>
  Claim C10. When the matched row needs an update, the update names exactly the
  properties Activity Type, Total Steps, Step Goal and Total Distance (km), and not
  Date; in every page of the destination the Date, and every property outside those
  four, is after the step what it was before. The properties of a create do contain
  Date, set to the record's calendarDate.
\<close>

theorem update_keeps_date:
  assumes "fst (databases_query c database_id (calendarDate steps)) = existing # others"
    and "steps_need_update existing steps = Inr True"
  shows "calls (snd (main_step c database_id steps)) =
      calls c @ [Query database_id (calendarDate steps),
                 Update (page_id existing) (update_properties steps)]
    \<and> dom (update_properties steps) =
        {''Activity Type'', ''Total Steps'', ''Step Goal'', ''Total Distance (km)''}
    \<and> ''Date'' \<notin> dom (update_properties steps)
    \<and> length (pages (snd (main_step c database_id steps))) = length (pages c)
    \<and> (\<forall>i < length (pages c). \<forall>k.
          k \<notin> {''Activity Type'', ''Total Steps'', ''Step Goal'', ''Total Distance (km)''} \<longrightarrow>
          properties (pages (snd (main_step c database_id steps)) ! i) k =
            properties (pages c ! i) k)
    \<and> (\<forall>i < length (pages c).
          properties (pages (snd (main_step c database_id steps)) ! i) ''Date'' =
            properties (pages c ! i) ''Date'')
    \<and> create_properties steps ''Date'' = Some (DateStart (calendarDate steps))"
proof -
  from assms(1)
  have m: "filter (matches database_id (calendarDate steps)) (pages c) = existing # others"
    by (simp add: databases_query_def)
  from main_step_match [OF m] assms(2)
  have step: "main_step c database_id steps =
      (None, update_daily_steps
         (c\<lparr>calls := calls c @ [Query database_id (calendarDate steps)]\<rparr>) existing steps)"
    by simp
  have pg: "pages (snd (main_step c database_id steps)) =
      map (set_properties (page_id existing) (update_properties steps)) (pages c)"
    by (simp add: step update_daily_steps_def pages_update_def)
  have cl: "calls (snd (main_step c database_id steps)) =
      calls c @ [Query database_id (calendarDate steps),
                 Update (page_id existing) (update_properties steps)]"
    by (simp add: step update_daily_steps_def pages_update_def)
  have dm: "dom (update_properties steps) =
      {''Activity Type'', ''Total Steps'', ''Step Goal'', ''Total Distance (km)''}"
    by (rule dom_update_properties)
  have nd: "''Date'' \<notin> dom (update_properties steps)"
    by (simp add: dom_update_properties)
  have ln: "length (pages (snd (main_step c database_id steps))) = length (pages c)"
    by (simp add: pg)
  have other: "\<forall>i < length (pages c). \<forall>k.
      k \<notin> {''Activity Type'', ''Total Steps'', ''Step Goal'', ''Total Distance (km)''} \<longrightarrow>
      properties (pages (snd (main_step c database_id steps)) ! i) k =
        properties (pages c ! i) k"
    unfolding dm [symmetric] by (simp add: pg properties_set_properties_other)
  have dt: "\<forall>i < length (pages c).
      properties (pages (snd (main_step c database_id steps)) ! i) ''Date'' =
        properties (pages c ! i) ''Date''"
    using nd by (simp add: pg properties_set_properties_other)
  have cr: "create_properties steps ''Date'' = Some (DateStart (calendarDate steps))"
    by (simp add: create_properties_def)
  from cl dm nd ln other dt cr show ?thesis
    by (intro conjI)
qed

theorem update_keeps_date_witness:
  "fst (databases_query (example_client [example_page (Some 7000)]) (Some ''db'')
      (calendarDate example_steps)) = [example_page (Some 7000)] \<and>
   steps_need_update (example_page (Some 7000)) example_steps = Inr True \<and>
   (0::nat) < length (pages (example_client [example_page (Some 7000)])) \<and>
   properties (pages (snd (main_step (example_client [example_page (Some 7000)]) (Some ''db'')
      example_steps)) ! 0) ''Date'' = Some (DateStart (Some ''2024-05-01'')) \<and>
   properties (pages (snd (main_step (example_client [example_page (Some 7000)]) (Some ''db'')
      example_steps)) ! 0) ''Total Steps'' = Some (Number (Some 8000))"
proof -
  have q: "fst (databases_query (example_client [example_page (Some 7000)]) (Some ''db'')
      (calendarDate example_steps)) = [example_page (Some 7000)]"
    by (simp add: databases_query_def example_client_def example_page_def example_steps_def
        matches_def)
  have n: "steps_need_update (example_page (Some 7000)) example_steps = Inr True"
    by (simp add: steps_need_update_def number_of_def example_page_def example_steps_def)
  have l: "(0::nat) < length (pages (example_client [example_page (Some 7000)]))"
    by (simp add: example_client_def)
  have d: "properties (pages (example_client [example_page (Some 7000)]) ! 0) ''Date'' =
      Some (DateStart (Some ''2024-05-01''))"
    by (simp add: example_client_def example_page_def)
  have s: "properties (pages (snd (main_step (example_client [example_page (Some 7000)])
      (Some ''db'') example_steps)) ! 0) ''Total Steps'' = Some (Number (Some 8000))"
    unfolding main_step_match [OF q [unfolded databases_query_calls(3)]] n
    by (simp add: update_daily_steps_def pages_update_def set_properties_def
        update_properties_def example_client_def example_page_def example_steps_def)
  from update_keeps_date [OF q n] l d s q n show ?thesis by simp
qed

section \<open>The date window\<close>


lemma daterange_same: "daterange_of today today = [today - 1]"
  by (simp add: daterange_of_def)

lemma daterange_set: "set (daterange_of today1 today2) = {today1 - 1 ..< today2}"
proof -
  have "(\<lambda>x. today1 - 1 + int x) ` {0 ..< nat (today2 - (today1 - 1))} = {today1 - 1 ..< today2}"
  proof (intro equalityI subsetI)
    fix d assume "d \<in> (\<lambda>x. today1 - 1 + int x) ` {0 ..< nat (today2 - (today1 - 1))}"
    then show "d \<in> {today1 - 1 ..< today2}" by auto
  next
    fix d assume d: "d \<in> {today1 - 1 ..< today2}"
    then have "d = today1 - 1 + int (nat (d - (today1 - 1)))"
      and "nat (d - (today1 - 1)) \<in> {0 ..< nat (today2 - (today1 - 1))}"
      by auto
    then show "d \<in> (\<lambda>x. today1 - 1 + int x) ` {0 ..< nat (today2 - (today1 - 1))}"
      by (rule image_eqI)
  qed
  then show ?thesis by (simp add: daterange_of_def Let_def)
qed

text \<open>
  The window the code is written for: when the two readings of the clock give the same
  date, the window is exactly one day, yesterday; the loop then queries the source
  client exactly once, for yesterday, and returns what that query returns.
\<close>

lemma one_day_window:
  assumes "today2 = today1"
  shows "daterange_of today1 today2 = [today1 - 1] \<and>
    get_all_daily_steps get_daily_steps today1 today2 =
      (case get_daily_steps (today1 - 1) (today1 - 1) of
         Inl e \<Rightarrow> Inl e | Inr found \<Rightarrow> Inr found,
       [(today1 - 1, today1 - 1)])"
  using assms
  by (simp add: get_all_daily_steps_def daterange_same split: sum.split)

lemma one_day_window_example:
  "(739007::int) = 739007 \<and> daterange_of 739007 739007 = [739006] \<and>
   get_all_daily_steps no_records 739007 739007 = (Inr [], [(739006, 739006)])"
  using one_day_window [of 739007 739007 no_records]
  by (simp add: no_records_def)

text \<open>
  Claim C8. The claim is that the date window is always the single day yesterday, today
  excluded, and that the source client is queried exactly once. The function reads
  \<^verbatim>\<open>date.today()\<close> twice, once for \<^verbatim>\<open>startdate\<close> and once for the length of the
  range. With 2024-05-01 (day 739007) as the first reading and 2024-05-02 (day 739008)
  as the second, midnight having passed in between, the window is the two days
  2024-04-30 and 2024-05-01, and the source client is queried twice: the code does not
  do what the claim says at this input.
\<close>

theorem window_across_midnight:
  "daterange_of 739007 739008 = [739006, 739007] \<and>
   snd (get_all_daily_steps no_records 739007 739008) =
     [(739006, 739006), (739007, 739007)]"
proof -
  have "[0 ..< nat (739008 - (739007 - 1))] = [0, 1]"
    by (simp add: upt_rec)
  then have "daterange_of 739007 739008 = [739006, 739007]"
    by (simp add: daterange_of_def)
  then show ?thesis
    by (simp add: get_all_daily_steps_def no_records_def)
qed

section \<open>The auth session manager: outcomes\<close>

text \<open>
  Claim C6. When the restore from the credential store succeeds, the function returns
  the restored session at once: it makes the token login and prints its message,
  nothing else (no prompt, no credential login, no dump), and the credential store is
  as it was.
\<close>

theorem token_login_returns:
  assumes "login_tokenstore env (tokenstore w) = Inr t"
  shows "login_garmin_with_mfa env em pw w =
      (Inr \<lparr>email = None, password = None, return_on_mfa = False, garth = Some t\<rparr>,
       w\<lparr>events := events w @ [LoginTokenstore, Print ''Garmin login via tokens gelukt.'']\<rparr>)
    \<and> tokenstore (snd (login_garmin_with_mfa env em pw w)) = tokenstore w"
  using assms by (simp add: login_garmin_with_mfa_def emit_def Garmin_def)

theorem token_login_returns_witness:
  "login_tokenstore (example_env (Inr ''cached'') (Inl EOFError) (Inl EOFError) None)
      (tokenstore example_world) = Inr ''cached'' \<and>
   login_garmin_with_mfa (example_env (Inr ''cached'') (Inl EOFError) (Inl EOFError) None)
      (Some ''me'') (Some ''secret'') example_world =
     (Inr \<lparr>email = None, password = None, return_on_mfa = False, garth = Some ''cached''\<rparr>,
      \<lparr>tokenstore = Some ''old'',
       events = [LoginTokenstore, Print ''Garmin login via tokens gelukt.'']\<rparr>)"
proof -
  have h: "login_tokenstore (example_env (Inr ''cached'') (Inl EOFError) (Inl EOFError) None)
      (tokenstore example_world) = Inr ''cached''"
    by (simp add: example_env_def)
  from h token_login_returns [OF h, of "Some ''me''" "Some ''secret''"]
  show ?thesis by (simp add: example_world_def)
qed

text \<open>
  Claim C7. When the restore fails and the credential login returns, then: if its
  first result is "needs_mfa", there is exactly one prompt, the code typed is submitted
  to resume the login, and on success the token material is dumped, so that the
  credential store holds it whatever it held before; if the first result is anything
  else, there is no prompt and the token material of the session is dumped all the
  same.
\<close>

theorem fallback_persists_tokens:
  assumes "login_tokenstore env (tokenstore w) = Inl e0"
    and "login_credentials env em pw = Inr (result1, result2, t)"
  shows "(result1 = Str ''needs_mfa'' \<longrightarrow> input_line env = Inr mfa_code \<longrightarrow>
          resume_login env result2 mfa_code = Inr t' \<longrightarrow> garth_dump env (Some t') = None \<longrightarrow>
          login_garmin_with_mfa env em pw w =
            (Inr \<lparr>email = em, password = pw, return_on_mfa = True, garth = Some t'\<rparr>,
             \<lparr>tokenstore = Some t',
              events = events w @
                [LoginTokenstore,
                 Print ''Geen geldige tokens. Nieuwe Garmin login (met MFA) ...'',
                 LoginCredentials em pw,
                 Input ''Voer Garmin MFA code uit je mail in: '',
                 ResumeLogin result2 mfa_code,
                 Dump (Some t'),
                 Print ''Nieuwe Garmin tokens opgeslagen.'']\<rparr>))
    \<and> (result1 \<noteq> Str ''needs_mfa'' \<longrightarrow> garth_dump env t = None \<longrightarrow>
          login_garmin_with_mfa env em pw w =
            (Inr \<lparr>email = em, password = pw, return_on_mfa = True, garth = t\<rparr>,
             \<lparr>tokenstore = t,
              events = events w @
                [LoginTokenstore,
                 Print ''Geen geldige tokens. Nieuwe Garmin login (met MFA) ...'',
                 LoginCredentials em pw,
                 Dump t,
                 Print ''Nieuwe Garmin tokens opgeslagen.'']\<rparr>))"
  using assms
  by (simp add: login_garmin_with_mfa_def dump_tokens_def emit_def Garmin_def)

theorem fallback_persists_tokens_witness:
  "login_tokenstore
      (example_env (Inl (ServiceError ''expired'')) (Inr (Str ''needs_mfa'', Obj 1, None))
         (Inr ''fresh'') None) (tokenstore example_world) = Inl (ServiceError ''expired'') \<and>
   login_garmin_with_mfa
      (example_env (Inl (ServiceError ''expired'')) (Inr (Str ''needs_mfa'', Obj 1, None))
         (Inr ''fresh'') None) (Some ''me'') (Some ''secret'') example_world =
     (Inr \<lparr>email = Some ''me'', password = Some ''secret'', return_on_mfa = True,
           garth = Some ''fresh''\<rparr>,
      \<lparr>tokenstore = Some ''fresh'',
       events =
         [LoginTokenstore,
          Print ''Geen geldige tokens. Nieuwe Garmin login (met MFA) ...'',
          LoginCredentials (Some ''me'') (Some ''secret''),
          Input ''Voer Garmin MFA code uit je mail in: '',
          ResumeLogin (Obj 1) ''123456'',
          Dump (Some ''fresh''),
          Print ''Nieuwe Garmin tokens opgeslagen.'']\<rparr>)"
proof -
  let ?env = "example_env (Inl (ServiceError ''expired'')) (Inr (Str ''needs_mfa'', Obj 1, None))
         (Inr ''fresh'') None"
  have h1: "login_tokenstore ?env (tokenstore example_world) = Inl (ServiceError ''expired'')"
    and h2: "login_credentials ?env (Some ''me'') (Some ''secret'') =
      Inr (Str ''needs_mfa'', Obj 1, None)"
    and h3: "input_line ?env = Inr ''123456''"
    and h4: "resume_login ?env (Obj 1) ''123456'' = Inr ''fresh''"
    and h5: "garth_dump ?env (Some ''fresh'') = None"
    by (simp_all add: example_env_def)
  from fallback_persists_tokens [OF h1 h2, of "''123456''" "''fresh''"] h3 h4 h5
  have "login_garmin_with_mfa ?env (Some ''me'') (Some ''secret'') example_world =
     (Inr \<lparr>email = Some ''me'', password = Some ''secret'', return_on_mfa = True,
           garth = Some ''fresh''\<rparr>,
      \<lparr>tokenstore = Some ''fresh'',
       events = events example_world @
         [LoginTokenstore,
          Print ''Geen geldige tokens. Nieuwe Garmin login (met MFA) ...'',
          LoginCredentials (Some ''me'') (Some ''secret''),
          Input ''Voer Garmin MFA code uit je mail in: '',
          ResumeLogin (Obj 1) ''123456'',
          Dump (Some ''fresh''),
          Print ''Nieuwe Garmin tokens opgeslagen.'']\<rparr>)"
    by blast
  with h1 show ?thesis by (simp add: example_world_def)
qed

lemma fallback_events:
  assumes "login_tokenstore env (tokenstore w) = Inl e0"
  shows "take (length (events w) + 3) (events (snd (login_garmin_with_mfa env em pw w))) =
      events w @
        [LoginTokenstore,
         Print ''Geen geldige tokens. Nieuwe Garmin login (met MFA) ...'',
         LoginCredentials em pw]"
  using assms
  by (simp add: login_garmin_with_mfa_def dump_tokens_def emit_def Garmin_def Let_def
      split: sum.split prod.split option.split)

text \<open>
  Claim C5. A failure of the restore from the credential store is swallowed: the
  outcome of the function does not depend on which exception the restore raised, and
  the credential login is attempted next. A failure of the credential login, of the
  resumed login or of the dump is the result of the function, and nothing is attempted
  after it: each call is made at most once.
\<close>

theorem restore_failure_swallowed:
  assumes "login_tokenstore env (tokenstore w) = Inl e0"
  shows "login_garmin_with_mfa env em pw w =
      login_garmin_with_mfa (env\<lparr>login_tokenstore := \<lambda>store. Inl e1\<rparr>) em pw w
    \<and> take (length (events w) + 3) (events (snd (login_garmin_with_mfa env em pw w))) =
        events w @
          [LoginTokenstore,
           Print ''Geen geldige tokens. Nieuwe Garmin login (met MFA) ...'',
           LoginCredentials em pw]
    \<and> (login_credentials env em pw = Inl e \<longrightarrow>
          login_garmin_with_mfa env em pw w =
            (Inl e,
             w\<lparr>events := events w @
                [LoginTokenstore,
                 Print ''Geen geldige tokens. Nieuwe Garmin login (met MFA) ...'',
                 LoginCredentials em pw]\<rparr>))
    \<and> (login_credentials env em pw = Inr (Str ''needs_mfa'', result2, t) \<longrightarrow>
        input_line env = Inr mfa_code \<longrightarrow> resume_login env result2 mfa_code = Inl e \<longrightarrow>
          login_garmin_with_mfa env em pw w =
            (Inl e,
             w\<lparr>events := events w @
                [LoginTokenstore,
                 Print ''Geen geldige tokens. Nieuwe Garmin login (met MFA) ...'',
                 LoginCredentials em pw,
                 Input ''Voer Garmin MFA code uit je mail in: '',
                 ResumeLogin result2 mfa_code]\<rparr>))
    \<and> (login_credentials env em pw = Inr (Str ''needs_mfa'', result2, t) \<longrightarrow>
        input_line env = Inr mfa_code \<longrightarrow> resume_login env result2 mfa_code = Inr t' \<longrightarrow>
        garth_dump env (Some t') = Some e \<longrightarrow>
          login_garmin_with_mfa env em pw w =
            (Inl e,
             w\<lparr>events := events w @
                [LoginTokenstore,
                 Print ''Geen geldige tokens. Nieuwe Garmin login (met MFA) ...'',
                 LoginCredentials em pw,
                 Input ''Voer Garmin MFA code uit je mail in: '',
                 ResumeLogin result2 mfa_code,
                 Dump (Some t')]\<rparr>))
    \<and> (login_credentials env em pw = Inr (result1, result2, t) \<longrightarrow>
        result1 \<noteq> Str ''needs_mfa'' \<longrightarrow> garth_dump env t = Some e \<longrightarrow>
          login_garmin_with_mfa env em pw w =
            (Inl e,
             w\<lparr>events := events w @
                [LoginTokenstore,
                 Print ''Geen geldige tokens. Nieuwe Garmin login (met MFA) ...'',
                 LoginCredentials em pw,
                 Dump t]\<rparr>))"
proof -
  have "login_garmin_with_mfa env em pw w =
      login_garmin_with_mfa (env\<lparr>login_tokenstore := \<lambda>store. Inl e1\<rparr>) em pw w"
    using assms
    by (simp add: login_garmin_with_mfa_def dump_tokens_def Let_def
        split: sum.split prod.split)
  moreover note fallback_events [OF assms, of em pw]
  moreover have "login_garmin_with_mfa env em pw w =
            (Inl e,
             w\<lparr>events := events w @
                [LoginTokenstore,
                 Print ''Geen geldige tokens. Nieuwe Garmin login (met MFA) ...'',
                 LoginCredentials em pw]\<rparr>)"
    if "login_credentials env em pw = Inl e"
    using assms that by (simp add: login_garmin_with_mfa_def emit_def)
  moreover have "login_garmin_with_mfa env em pw w =
            (Inl e,
             w\<lparr>events := events w @
                [LoginTokenstore,
                 Print ''Geen geldige tokens. Nieuwe Garmin login (met MFA) ...'',
                 LoginCredentials em pw,
                 Input ''Voer Garmin MFA code uit je mail in: '',
                 ResumeLogin result2 mfa_code]\<rparr>)"
    if "login_credentials env em pw = Inr (Str ''needs_mfa'', result2, t)"
      "input_line env = Inr mfa_code" "resume_login env result2 mfa_code = Inl e"
    using assms that by (simp add: login_garmin_with_mfa_def emit_def)
  moreover have "login_garmin_with_mfa env em pw w =
            (Inl e,
             w\<lparr>events := events w @
                [LoginTokenstore,
                 Print ''Geen geldige tokens. Nieuwe Garmin login (met MFA) ...'',
                 LoginCredentials em pw,
                 Input ''Voer Garmin MFA code uit je mail in: '',
                 ResumeLogin result2 mfa_code,
                 Dump (Some t')]\<rparr>)"
    if "login_credentials env em pw = Inr (Str ''needs_mfa'', result2, t)"
      "input_line env = Inr mfa_code" "resume_login env result2 mfa_code = Inr t'"
      "garth_dump env (Some t') = Some e"
    using assms that by (simp add: login_garmin_with_mfa_def dump_tokens_def emit_def)
  moreover have "login_garmin_with_mfa env em pw w =
            (Inl e,
             w\<lparr>events := events w @
                [LoginTokenstore,
                 Print ''Geen geldige tokens. Nieuwe Garmin login (met MFA) ...'',
                 LoginCredentials em pw,
                 Dump t]\<rparr>)"
    if "login_credentials env em pw = Inr (result1, result2, t)"
      "result1 \<noteq> Str ''needs_mfa''" "garth_dump env t = Some e"
    using assms that by (simp add: login_garmin_with_mfa_def dump_tokens_def emit_def Garmin_def)
  ultimately show ?thesis by (intro conjI impI)
qed

theorem restore_failure_swallowed_witness:
  "login_tokenstore
      (example_env (Inl (ServiceError ''expired'')) (Inl (ServiceError ''bad password''))
         (Inr ''fresh'') None) (tokenstore example_world) = Inl (ServiceError ''expired'') \<and>
   login_credentials
      (example_env (Inl (ServiceError ''expired'')) (Inl (ServiceError ''bad password''))
         (Inr ''fresh'') None) (Some ''me'') (Some ''secret'') =
     Inl (ServiceError ''bad password'') \<and>
   login_garmin_with_mfa
      (example_env (Inl (ServiceError ''expired'')) (Inl (ServiceError ''bad password''))
         (Inr ''fresh'') None) (Some ''me'') (Some ''secret'') example_world =
     (Inl (ServiceError ''bad password''),
      \<lparr>tokenstore = Some ''old'',
       events =
         [LoginTokenstore,
          Print ''Geen geldige tokens. Nieuwe Garmin login (met MFA) ...'',
          LoginCredentials (Some ''me'') (Some ''secret'')]\<rparr>)"
proof -
  let ?env = "example_env (Inl (ServiceError ''expired'')) (Inl (ServiceError ''bad password''))
         (Inr ''fresh'') None"
  have h1: "login_tokenstore ?env (tokenstore example_world) = Inl (ServiceError ''expired'')"
    and h2: "login_credentials ?env (Some ''me'') (Some ''secret'') =
      Inl (ServiceError ''bad password'')"
    by (simp_all add: example_env_def)
  from restore_failure_swallowed [OF h1, of "Some ''me''" "Some ''secret''"] h2
  have "login_garmin_with_mfa ?env (Some ''me'') (Some ''secret'') example_world =
     (Inl (ServiceError ''bad password''),
      example_world\<lparr>events := events example_world @
         [LoginTokenstore,
          Print ''Geen geldige tokens. Nieuwe Garmin login (met MFA) ...'',
          LoginCredentials (Some ''me'') (Some ''secret'')]\<rparr>)"
    by blast
  with h1 h2 show ?thesis by (simp add: example_world_def)
qed

end
